theory Spec2Isabelle
  imports Main "HOL-Library.AList" "HOL-Library.Multiset"
begin

section \<open>Python values of the COCO dataset pipeline\<close>

text \<open>
  The source file is \<^verbatim>\<open>torchvision/prototype/datasets/_builtin/coco.py\<close>, class
  \<^verbatim>\<open>Coco\<close>. Its methods work on parsed JSON documents. A parsed JSON value is
  one of Python's \<^verbatim>\<open>None\<close>, \<^verbatim>\<open>bool\<close>, \<^verbatim>\<open>int\<close>, \<^verbatim>\<open>str\<close>, \<^verbatim>\<open>list\<close>, \<^verbatim>\<open>dict\<close>.
  Integers are Python's unbounded integers. A \<^verbatim>\<open>dict\<close> is an association list in
  insertion order whose keys are pairwise distinct; lookup is \<open>map_of\<close>. JSON numbers
  with a fractional part (Python \<^verbatim>\<open>float\<close>) are not part of the model.
\<close>

datatype json =
    JNone
  | JBool bool
  | JInt int
  | JStr string
  | JList "json list"
  | JDict "(string \<times> json) list"

text \<open>The exceptions the modelled code can raise.\<close>

datatype error =
    KeyError string
  | TypeError
  | ValueError
  | AttributeError
  | RuntimeError

text \<open>
  Values that occur in samples: JSON values, tensors (type \<open>'t\<close>, produced by
  \<^verbatim>\<open>torch.tensor\<close> and by the injected image decoder), raw image buffers (type \<open>'b\<close>)
  and dictionaries of such values.
\<close>

datatype ('t, 'b) obj =
    J json
  | Tensor 't
  | Buffer 'b
  | Dict "(string \<times> ('t, 'b) obj) list"

text \<open>Sequencing of statements that may raise: the first exception ends the call.\<close>

definition bind_e :: "error + 'a \<Rightarrow> ('a \<Rightarrow> error + 'b) \<Rightarrow> error + 'b" where
  "bind_e r f = (case r of Inl e \<Rightarrow> Inl e | Inr x \<Rightarrow> f x)"

text \<open>\<^verbatim>\<open>obj[key]\<close> for a string key: only a \<^verbatim>\<open>dict\<close> can be subscripted by a string,
  and a missing key raises \<^verbatim>\<open>KeyError\<close>.\<close>

definition subscript :: "json \<Rightarrow> string \<Rightarrow> error + json" where
  "subscript v k =
     (case v of
        JDict d \<Rightarrow> (case map_of d k of None \<Rightarrow> Inl (KeyError k) | Some x \<Rightarrow> Inr x)
      | _ \<Rightarrow> Inl TypeError)"

text \<open>\<^verbatim>\<open>bool(v)\<close>: Python truthiness of a JSON value.\<close>

fun py_bool :: "json \<Rightarrow> bool" where
  "py_bool JNone = False"
| "py_bool (JBool b) = b"
| "py_bool (JInt i) = (i \<noteq> 0)"
| "py_bool (JStr s) = (s \<noteq> [])"
| "py_bool (JList xs) = (xs \<noteq> [])"
| "py_bool (JDict d) = (d \<noteq> [])"

text \<open>\<^verbatim>\<open>categories.index(v)\<close> on a sequence of names: the position of the first element
  equal to \<open>v\<close>, \<^verbatim>\<open>ValueError\<close> when there is none. A \<^verbatim>\<open>str\<close> is equal to a JSON value
  only when that value is the same \<^verbatim>\<open>str\<close>.\<close>

fun index :: "string list \<Rightarrow> json \<Rightarrow> error + nat" where
  "index [] v = Inl ValueError"
| "index (c # cs) v =
     (if JStr c = v then Inr 0
      else (case index cs v of Inl e \<Rightarrow> Inl e | Inr n \<Rightarrow> Inr (Suc n)))"

section \<open>Annotation decoders\<close>

text \<open>
  \<^verbatim>\<open>
  def _decode_instances_ann(self, ann):
      area = ann["area"]
      iscrowd = bool(ann["iscrowd"])
      bbox = torch.tensor(ann["bbox"])
      category = self.categories.index(ann["category_id"])
      id = ann["id"]
      return dict(area=area, iscrowd=iscrowd, bbox=bbox, category=category, id=id)
  \<close>
  \<^verbatim>\<open>torch.tensor\<close> belongs to an external library: it is the parameter \<open>tensor\<close>,
  which may raise. \<^verbatim>\<open>self.categories\<close> is the parameter \<open>categories\<close>, the
  vocabulary of category names.
\<close>

definition decode_instances_ann ::
  "(json \<Rightarrow> error + 't) \<Rightarrow> string list \<Rightarrow> json \<Rightarrow> error + ('t, 'b) obj" where
  "decode_instances_ann tensor categories ann =
     bind_e (subscript ann ''area'') (\<lambda>area.
     bind_e (subscript ann ''iscrowd'') (\<lambda>c.
     let iscrowd = py_bool c in
     bind_e (subscript ann ''bbox'') (\<lambda>b.
     bind_e (tensor b) (\<lambda>bbox.
     bind_e (subscript ann ''category_id'') (\<lambda>cid.
     bind_e (index categories cid) (\<lambda>category.
     bind_e (subscript ann ''id'') (\<lambda>ident.
       Inr (Dict [(''area'', J area),
                  (''iscrowd'', J (JBool iscrowd)),
                  (''bbox'', Tensor bbox),
                  (''category'', J (JInt (int category))),
                  (''id'', J ident)]))))))))"

text \<open>
  \<^verbatim>\<open>
  def _decode_captions_ann(self, ann):
      ann = ann.copy()
      ann.pop("image_id")
      return ann
  \<close>
  On values: a \<^verbatim>\<open>dict\<close> has \<^verbatim>\<open>copy\<close> and \<^verbatim>\<open>pop\<close>; \<^verbatim>\<open>pop\<close> of a missing key raises
  \<^verbatim>\<open>KeyError\<close>. A \<^verbatim>\<open>list\<close> has \<^verbatim>\<open>copy\<close>, but its \<^verbatim>\<open>pop\<close> rejects a string index
  (\<^verbatim>\<open>TypeError\<close>); the other values have no \<^verbatim>\<open>copy\<close> (\<^verbatim>\<open>AttributeError\<close>).
\<close>

definition decode_captions_ann :: "json \<Rightarrow> error + json" where
  "decode_captions_ann ann =
     (case ann of
        JDict d \<Rightarrow>
          (case map_of d ''image_id'' of
             None \<Rightarrow> Inl (KeyError ''image_id'')
           | Some _ \<Rightarrow> Inr (JDict (AList.delete ''image_id'' d)))
      | JList _ \<Rightarrow> Inl TypeError
      | _ \<Rightarrow> Inl AttributeError)"

text \<open>
  The same method on a store of objects, to observe what it does to its argument.
  A store is the list of the allocated \<^verbatim>\<open>dict\<close> objects; a reference is an index
  into it. \<^verbatim>\<open>ann.copy()\<close> allocates a new object with the same items (the values are
  shared, and nothing below mutates a value); \<^verbatim>\<open>pop\<close> updates the object the local name
  \<^verbatim>\<open>ann\<close> then refers to, which is the copy.
\<close>

type_synonym store = "(string \<times> json) list list"

definition decode_captions_ann_store :: "store \<Rightarrow> nat \<Rightarrow> store \<times> (error + nat)" where
  "decode_captions_ann_store h a =
     (let a' = length h;
          h1 = h @ [h ! a]
      in case map_of (h1 ! a') ''image_id'' of
           None \<Rightarrow> (h1, Inl (KeyError ''image_id''))
         | Some _ \<Rightarrow> (h1[a' := AList.delete ''image_id'' (h1 ! a')], Inr a'))"

text \<open>
  \<^verbatim>\<open>
  _ANN_TYPES, _ANN_TYPE_DEFAULTS, _ANN_DECODERS = zip(
      *(("instances", True, _decode_instances_ann),
        ("captions", False, _decode_captions_ann)))
  _ANN_DECODER_MAP = dict(zip(_ANN_TYPES, _ANN_DECODERS))
  \<close>
\<close>

definition ANN_TYPES :: "string list" where
  "ANN_TYPES = [''instances'', ''captions'']"

definition ANN_TYPE_DEFAULTS :: "bool list" where
  "ANN_TYPE_DEFAULTS = [True, False]"

definition ANN_DECODERS ::
  "(json \<Rightarrow> error + 't) \<Rightarrow> string list \<Rightarrow> (json \<Rightarrow> error + ('t, 'b) obj) list" where
  "ANN_DECODERS tensor categories =
     [decode_instances_ann tensor categories,
      \<lambda>ann. bind_e (decode_captions_ann ann) (\<lambda>r. Inr (J r))]"

definition ANN_DECODER_MAP ::
  "(json \<Rightarrow> error + 't) \<Rightarrow> string list \<Rightarrow> string \<Rightarrow> (json \<Rightarrow> error + ('t, 'b) obj) option" where
  "ANN_DECODER_MAP tensor categories = map_of (zip ANN_TYPES (ANN_DECODERS tensor categories))"

section \<open>Classifiers\<close>

text \<open>
  \<^verbatim>\<open>
  def _classify_meta(self, data):
      key, _ = data
      if key == "images": return 0
      elif key == "annotations": return 1
      else: return None
  \<close>
\<close>

definition classify_meta :: "string \<times> 'a \<Rightarrow> nat option" where
  "classify_meta data =
     (let (key, _) = data
      in if key = ''images'' then Some 0
         else if key = ''annotations'' then Some 1
         else None)"

text \<open>
  \<^verbatim>\<open>pathlib.Path(p).name\<close> (POSIX flavour): the last component of the path, where empty
  components and \<^verbatim>\<open>.\<close> components are dropped; the empty string when no component is
  left.
\<close>

fun split_path :: "string \<Rightarrow> string list" where
  "split_path [] = [[]]"
| "split_path (c # cs) =
     (if c = CHR ''/'' then [] # split_path cs
      else (case split_path cs of [] \<Rightarrow> [[c]] | p # ps \<Rightarrow> (c # p) # ps))"

definition path_name :: "string \<Rightarrow> string" where
  "path_name p =
     (case rev (filter (\<lambda>c. c \<noteq> [] \<and> c \<noteq> ''.'') (split_path p)) of
        [] \<Rightarrow> []
      | c # _ \<Rightarrow> c)"

text \<open>
  \<^verbatim>\<open>
  _META_FILE_PATTERN = re.compile(
      fr"(?P<ann_type>({'|'.join(_ANN_TYPES)}))_(?P<split>[a-zA-Z]+)(?P<year>\d+)[.]json")
  \<close>
  \<^verbatim>\<open>match\<close> anchors the pattern at the start of the name only. The alternatives of
  \<^verbatim>\<open>ann_type\<close> are tried in order. \<^verbatim>\<open>[a-zA-Z]+\<close> and \<^verbatim>\<open>\d+\<close> are greedy; giving back a
  letter leaves a letter where a digit is required, and giving back a digit leaves a
  digit where the dot is required, so backtracking finds nothing that the longest runs
  do not. Characters are 8-bit here, where the only decimal digits are \<^verbatim>\<open>0\<close> to \<^verbatim>\<open>9\<close>.
  The result is the triple of the groups \<^verbatim>\<open>ann_type\<close>, \<^verbatim>\<open>split\<close>, \<^verbatim>\<open>year\<close>.
\<close>

definition is_alpha :: "char \<Rightarrow> bool" where
  "is_alpha c = (c \<in> set (''abcdefghijklmnopqrstuvwxyz'' @ ''ABCDEFGHIJKLMNOPQRSTUVWXYZ''))"

definition is_digit :: "char \<Rightarrow> bool" where
  "is_digit c = (c \<in> set ''0123456789'')"

fun strip_prefix :: "string \<Rightarrow> string \<Rightarrow> string option" where
  "strip_prefix [] s = Some s"
| "strip_prefix (p # ps) [] = None"
| "strip_prefix (p # ps) (c # cs) = (if p = c then strip_prefix ps cs else None)"

definition match_ann_type :: "string \<Rightarrow> string \<Rightarrow> (string \<times> string \<times> string) option" where
  "match_ann_type t nm =
     (case strip_prefix (t @ ''_'') nm of
        None \<Rightarrow> None
      | Some r1 \<Rightarrow>
          let sp = takeWhile is_alpha r1; r2 = dropWhile is_alpha r1;
              yr = takeWhile is_digit r2; r3 = dropWhile is_digit r2
          in if sp \<noteq> [] \<and> yr \<noteq> [] \<and> strip_prefix ''.json'' r3 \<noteq> None
             then Some (t, sp, yr) else None)"

fun match_alternatives :: "string list \<Rightarrow> string \<Rightarrow> (string \<times> string \<times> string) option" where
  "match_alternatives [] nm = None"
| "match_alternatives (t # ts) nm =
     (case match_ann_type t nm of Some m \<Rightarrow> Some m | None \<Rightarrow> match_alternatives ts nm)"

definition META_FILE_PATTERN_match :: "string \<Rightarrow> (string \<times> string \<times> string) option" where
  "META_FILE_PATTERN_match nm = match_alternatives ANN_TYPES nm"

text \<open>
  \<^verbatim>\<open>
  def _classifiy_meta_files(self, data, *, split, year, ann_type_idcs):
      match = self._META_FILE_PATTERN.match(pathlib.Path(data[0]).name)
      if not match or match["split"] != split or match["year"] != year:
          return None
      return ann_type_idcs.get(match["ann_type"])
  \<close>
  The three parameters are keyword-only. A keyword argument is a string or a
  dictionary from names to channel numbers; a string differs from every dictionary, and
  a string has no \<^verbatim>\<open>get\<close>.
\<close>

datatype kwarg = KStr string | KIdcs "(string \<times> nat) list"

definition classifiy_meta_files ::
  "string \<times> 'a \<Rightarrow> kwarg \<Rightarrow> kwarg \<Rightarrow> kwarg \<Rightarrow> error + nat option" where
  "classifiy_meta_files data split year ann_type_idcs =
     (case META_FILE_PATTERN_match (path_name (fst data)) of
        None \<Rightarrow> Inr None
      | Some (t, s, y) \<Rightarrow>
          if KStr s \<noteq> split \<or> KStr y \<noteq> year then Inr None
          else (case ann_type_idcs of
                  KIdcs d \<Rightarrow> Inr (map_of d t)
                | KStr _ \<Rightarrow> Inl AttributeError))"

text \<open>
  A call of \<^verbatim>\<open>_classifiy_meta_files\<close> with one positional argument and a set of keyword
  arguments, as \<^verbatim>\<open>functools.partial\<close> issues it. Python binds the keywords to the
  parameters by name: a keyword that names no parameter, or a keyword-only parameter
  without a default that receives no argument, raises \<^verbatim>\<open>TypeError\<close> before the body
  runs.
\<close>

definition call_classifiy_meta_files ::
  "(string \<times> kwarg) list \<Rightarrow> string \<times> 'a \<Rightarrow> error + nat option" where
  "call_classifiy_meta_files keywords data =
     (if \<not> list_all (\<lambda>k. k \<in> set [''split'', ''year'', ''ann_type_idcs'']) (map fst keywords)
      then Inl TypeError
      else (case (map_of keywords ''split'', map_of keywords ''year'',
                  map_of keywords ''ann_type_idcs'') of
              (Some split, Some year, Some ann_type_idcs) \<Rightarrow>
                 classifiy_meta_files data split year ann_type_idcs
            | _ \<Rightarrow> Inl TypeError))"

section \<open>Assembling the annotations of an image\<close>

text \<open>\<^verbatim>\<open>dict(pairs)\<close>: the items are inserted from left to right; a key that is already
  present keeps its position and takes the new value.\<close>

definition py_dict :: "('k \<times> 'v) list \<Rightarrow> ('k \<times> 'v) list" where
  "py_dict pairs = foldl (\<lambda>d (k, v). AList.update k v d) [] pairs"

text \<open>
  The options of a dataset configuration that the pipeline reads: \<^verbatim>\<open>config.split\<close>,
  \<^verbatim>\<open>config.year\<close> and, for each annotation type, \<^verbatim>\<open>config[type]\<close>.
\<close>

record config =
  split :: string
  year :: string
  instances :: bool
  captions :: bool

definition config_getitem :: "config \<Rightarrow> string \<Rightarrow> bool" where
  "config_getitem cfg type =
     (if type = ''instances'' then instances cfg
      else if type = ''captions'' then captions cfg
      else False)"

text \<open>
  \<^verbatim>\<open>
  def _make_anns_dp(self, meta_dp, *, config):
      ann_types = [type for type in self._ANN_TYPES if config[type]]
      meta_dp = ZipArchiveReader(meta_dp)
      partial_anns_dps = Demultiplexer(
          meta_dp, len(ann_types),
          functools.partial(
              self._classifiy_meta_files,
              split=config.split, year=config.year,
              type_idcs=dict(zip(ann_types, range(len(ann_types)))),
          ),
          drop_none=True, buffer_size=INFINITE_BUFFER_SIZE)
      partial_anns_dps = [self._make_partial_anns_dp(dp) for dp in partial_anns_dps]
      anns_dp = Concater(*partial_anns_dps)
      anns_dp = Grouper(anns_dp, group_key_fn=getitem(1, "id"), buffer_size=INFINITE_BUFFER_SIZE)
      return Mapper(anns_dp, self._precollate_anns, fn_kwargs=dict(types=ann_types))
  \<close>
  \<open>make_anns_dp_classifier\<close> is the classifier that the demultiplexer of this method
  calls on every archive entry.
\<close>

definition ann_types :: "config \<Rightarrow> string list" where
  "ann_types cfg = filter (config_getitem cfg) ANN_TYPES"

definition make_anns_dp_classifier :: "config \<Rightarrow> string \<times> 'a \<Rightarrow> error + nat option" where
  "make_anns_dp_classifier cfg =
     call_classifiy_meta_files
       [(''split'', KStr (split cfg)),
        (''year'', KStr (year cfg)),
        (''type_idcs'', KIdcs (py_dict (zip (ann_types cfg) [0..<length (ann_types cfg)])))]"

text \<open>
  \<^verbatim>\<open>
  def _precollate_anns(self, data, *, types):
      ann_data, (image_data, *_) = zip(*data)
      return image_data["file_name"], dict(zip(types, ann_data))
  \<close>
  \<open>data\<close> is a list of pairs (the annotations of one type, the image record).
  \<^verbatim>\<open>zip(*data)\<close> yields nothing for the empty list, and the two tuples of the first and
  of the second components otherwise; unpacking it into two targets raises
  \<^verbatim>\<open>ValueError\<close> when it yields nothing. The second target takes the first element of
  the second tuple.
\<close>

definition unzip2 :: "('a \<times> 'b) list \<Rightarrow> error + ('a list \<times> 'b list)" where
  "unzip2 data = (if data = [] then Inl ValueError else Inr (map fst data, map snd data))"

definition precollate_anns ::
  "string list \<Rightarrow> (json \<times> json) list \<Rightarrow> error + (json \<times> (string \<times> json) list)" where
  "precollate_anns types data =
     bind_e (unzip2 data) (\<lambda>(ann_data, images).
       case images of
         [] \<Rightarrow> Inl ValueError
       | image_data # _ \<Rightarrow>
           bind_e (subscript image_data ''file_name'') (\<lambda>file_name.
             Inr (file_name, py_dict (zip types ann_data))))"

text \<open>
  Modelled from the spec: the grouping stage (section 4.3), which belongs to the
  external library \<^verbatim>\<open>torchdata\<close>. Items that share a key are accumulated in arrival order;
  the groups are emitted when the source is exhausted, in the order in which their keys
  were first seen. The key function may raise.
\<close>

fun insert_group :: "'k \<Rightarrow> 'a \<Rightarrow> ('k \<times> 'a list) list \<Rightarrow> ('k \<times> 'a list) list" where
  "insert_group k x [] = [(k, [x])]"
| "insert_group k x ((k', xs) # gs) =
     (if k = k' then (k', xs @ [x]) # gs else (k', xs) # insert_group k x gs)"

fun Grouper :: "('a \<Rightarrow> error + 'k) \<Rightarrow> ('k \<times> 'a list) list \<Rightarrow> 'a list \<Rightarrow> error + 'a list list" where
  "Grouper group_key_fn buf [] = Inr (map snd buf)"
| "Grouper group_key_fn buf (x # xs) =
     bind_e (group_key_fn x) (\<lambda>k. Grouper group_key_fn (insert_group k x buf) xs)"

text \<open>
  The groups are kept in a dictionary under their keys: a \<^verbatim>\<open>list\<close> or a \<^verbatim>\<open>dict\<close> is not
  hashable (\<^verbatim>\<open>TypeError\<close>), and \<^verbatim>\<open>True\<close> and \<^verbatim>\<open>False\<close> are the same keys as \<^verbatim>\<open>1\<close> and \<^verbatim>\<open>0\<close>.
\<close>

definition dict_key :: "json \<Rightarrow> error + json" where
  "dict_key k =
     (case k of
        JList _ \<Rightarrow> Inl TypeError
      | JDict _ \<Rightarrow> Inl TypeError
      | JBool b \<Rightarrow> Inr (JInt (if b then 1 else 0))
      | _ \<Rightarrow> Inr k)"

text \<open>\<^verbatim>\<open>Concater(*dps)\<close>: the streams one after the other.\<close>

definition Concater :: "'a list list \<Rightarrow> 'a list" where
  "Concater dps = concat dps"

text \<open>
  The last three lines of \<^verbatim>\<open>_make_anns_dp\<close>, from the per-type streams of
  (annotations, image record) pairs, given in the order of \<open>ann_types\<close>. The key
  \<^verbatim>\<open>getitem(1, "id")\<close> of a pair is the \<^verbatim>\<open>id\<close> of its image record. Each element of the result is the
  outcome of \<^verbatim>\<open>_precollate_anns\<close> on one group.
\<close>

definition collate_anns_dps ::
  "config \<Rightarrow> (json \<times> json) list list \<Rightarrow>
   error + (error + (json \<times> (string \<times> json) list)) list" where
  "collate_anns_dps cfg partial_anns_dps =
     (let anns_dp = Concater partial_anns_dps
      in bind_e (Grouper (\<lambda>item. bind_e (subscript (snd item) ''id'') dict_key) [] anns_dp) (\<lambda>groups.
           Inr (map (precollate_anns (ann_types cfg)) groups)))"

section \<open>Decoding a sample\<close>

text \<open>
  \<^verbatim>\<open>
  def _collate_and_decode_sample(self, data, *, decoder):
      ann_data, image_data = data
      _, anns = ann_data
      path, buffer = image_data
      anns = {type: self._ANN_DECODER_MAP[type](self, ann) for type, ann in anns.items()}
      image = decoder(buffer) if decoder else buffer
      return dict(anns, path=path, image=image)
  \<close>
  The comprehension visits the items in order and inserts each decoded value under its
  key; an unknown type raises \<^verbatim>\<open>KeyError\<close>. The parameter \<^verbatim>\<open>decoder\<close> is \<^verbatim>\<open>None\<close> or
  a callable object. \<^verbatim>\<open>if decoder\<close> tests its truth value: \<^verbatim>\<open>None\<close> is false, a function
  is true, and an object of a class that defines \<^verbatim>\<open>__bool__\<close> or \<^verbatim>\<open>__len__\<close> may be
  false although it is callable. The call of the decoder may raise.
\<close>

datatype ('b, 't) callable = Callable (truthy: bool) (call: "'b \<Rightarrow> error + 't")

fun decode_anns ::
  "(json \<Rightarrow> error + 't) \<Rightarrow> string list \<Rightarrow> (string \<times> ('t, 'b) obj) list \<Rightarrow>
   (string \<times> json) list \<Rightarrow> error + (string \<times> ('t, 'b) obj) list" where
  "decode_anns tensor categories acc [] = Inr acc"
| "decode_anns tensor categories acc ((type, ann) # rest) =
     (case ANN_DECODER_MAP tensor categories type of
        None \<Rightarrow> Inl (KeyError type)
      | Some dec \<Rightarrow>
          bind_e (dec ann) (\<lambda>v.
            decode_anns tensor categories (AList.update type v acc) rest))"

definition collate_and_decode_sample ::
  "(json \<Rightarrow> error + 't) \<Rightarrow> string list \<Rightarrow> ('b, 't) callable option \<Rightarrow>
   (json \<times> (string \<times> json) list) \<times> (string \<times> 'b) \<Rightarrow>
   error + (string \<times> ('t, 'b) obj) list" where
  "collate_and_decode_sample tensor categories decoder data =
     (let (ann_data, image_data) = data;
          (_, anns) = ann_data;
          (path, buffer) = image_data
      in bind_e (decode_anns tensor categories [] anns) (\<lambda>anns'.
         bind_e (case decoder of
                   None \<Rightarrow> Inr (Buffer buffer)
                 | Some f \<Rightarrow>
                     if truthy f then bind_e (call f buffer) (\<lambda>t. Inr (Tensor t))
                     else Inr (Buffer buffer)) (\<lambda>image.
           Inr (AList.update ''image'' image
                  (AList.update ''path'' (J (JStr path)) anns')))))"

section \<open>Building the vocabulary\<close>

text \<open>
  \<^verbatim>\<open>
  def _generate_categories(self, root):
      ...
      _, meta = next(iter(dp))
      categories_and_ids = [(info["name"], info["id"]) for info in meta["categories"]]
      categories, _ = zip(*sorted(categories_and_ids, key=lambda category_and_id: category_and_id[1]))
      return categories
  \<close>
  Reading the archive is the work of external collaborators; the model starts at the
  list \<^verbatim>\<open>meta["categories"]\<close>. A category entry carries a name and a numeric id.
  \<^verbatim>\<open>sorted\<close> is stable, as \<open>sort_key\<close> is.
\<close>

record category_info =
  name :: string
  cat_id :: int

definition generate_categories :: "category_info list \<Rightarrow> error + string list" where
  "generate_categories meta_categories =
     (let categories_and_ids = map (\<lambda>info. (name info, cat_id info)) meta_categories
      in bind_e (unzip2 (sort_key snd categories_and_ids)) (\<lambda>(categories, _).
           Inr categories))"

section \<open>Data of the specification\<close>

text \<open>
  An image record of the data model: a mapping with an integer \<^verbatim>\<open>id\<close> and a string
  \<^verbatim>\<open>file_name\<close>.
\<close>

definition is_ImageRecord :: "json \<Rightarrow> bool" where
  "is_ImageRecord r =
     (case r of
        JDict d \<Rightarrow>
          (case map_of d ''id'' of Some (JInt _) \<Rightarrow> True | _ \<Rightarrow> False) \<and>
          (case map_of d ''file_name'' of Some (JStr _) \<Rightarrow> True | _ \<Rightarrow> False)
      | _ \<Rightarrow> False)"

text \<open>The records and the vocabulary of end-to-end scenario A.\<close>

definition scenario_A_image :: json where
  "scenario_A_image = JDict [(''id'', JInt 1), (''file_name'', JStr ''000001.jpg'')]"

definition scenario_A_bbox :: json where
  "scenario_A_bbox = JList [JInt 0, JInt 0, JInt 10, JInt 10]"

definition scenario_A_annotation :: json where
  "scenario_A_annotation =
     JDict [(''id'', JInt 10), (''image_id'', JInt 1), (''area'', JInt 100),
            (''iscrowd'', JInt 0), (''bbox'', scenario_A_bbox), (''category_id'', JInt 5)]"

definition scenario_A_vocabulary :: "string list" where
  "scenario_A_vocabulary = [''cat'', ''dog'', ''bird'', ''fish'', ''cow'', ''person'']"

text \<open>A caption record, and a configuration that selects both annotation types.\<close>

definition caption_record :: json where
  "caption_record =
     JDict [(''id'', JInt 20), (''image_id'', JInt 1), (''caption'', JStr ''a cat'')]"

definition both_types :: config where
  "both_types = \<lparr>split = ''train'', year = ''2017'', instances = True, captions = True\<rparr>"

section \<open>Basic facts\<close>

lemma subscript_missing: "map_of d k = None \<Longrightarrow> subscript (JDict d) k = Inl (KeyError k)"
  by (simp add: subscript_def)

lemma insort_key_map:
  "insort_key k (h x) (map h ys) = map h (insort_key (\<lambda>y. k (h y)) x ys)"
  by (induction ys) simp_all

lemma sort_key_map: "sort_key k (map h xs) = map h (sort_key (\<lambda>y. k (h y)) xs)"
  by (induction xs) (simp_all add: insort_key_map)

lemma ANN_DECODER_MAP_keys:
  "ANN_DECODER_MAP tensor categories k = Some dec \<Longrightarrow> k = ''instances'' \<or> k = ''captions''"
  by (simp add: ANN_DECODER_MAP_def ANN_TYPES_def ANN_DECODERS_def split: if_splits)

section \<open>The annotation decoders\<close>

text \<open>
  With a vocabulary of names, \<^verbatim>\<open>_decode_instances_ann\<close> decodes a record whose
  \<^verbatim>\<open>category_id\<close> is a name of the vocabulary: the lookup is by equality with the
  elements of the vocabulary.
\<close>

lemma decode_instances_ann_by_name:
  "decode_instances_ann (\<lambda>v. Inr v) scenario_A_vocabulary
     (JDict [(''id'', JInt 10), (''image_id'', JInt 1), (''area'', JInt 100),
             (''iscrowd'', JInt 0), (''bbox'', scenario_A_bbox),
             (''category_id'', JStr ''person'')]) =
   Inr (Dict [(''area'', J (JInt 100)), (''iscrowd'', J (JBool False)),
              (''bbox'', Tensor scenario_A_bbox), (''category'', J (JInt 5)),
              (''id'', J (JInt 10))])"
  by (simp add: decode_instances_ann_def scenario_A_vocabulary_def subscript_def bind_e_def)

text \<open>
  Claim C1 (end-to-end scenario A). The claim expects one sample whose instances carry
  \<^verbatim>\<open>category: 5\<close>. On the code, \<^verbatim>\<open>_decode_instances_ann\<close> applied to the annotation
  record of the scenario raises: when \<^verbatim>\<open>torch.tensor\<close> accepts the bounding box, the
  lookup \<^verbatim>\<open>self.categories.index(5)\<close> searches the integer 5 among the names and raises
  \<^verbatim>\<open>ValueError\<close>. Moreover \<^verbatim>\<open>_collate_and_decode_sample\<close> hands the decoder the whole
  list of the image's annotations, as \<^verbatim>\<open>_precollate_anns\<close> delivers it, and
  subscripting a list with \<^verbatim>\<open>"area"\<close> raises \<^verbatim>\<open>TypeError\<close>. No sample is produced.
\<close>

theorem scenario_A_raises:
  "decode_instances_ann tensor scenario_A_vocabulary scenario_A_annotation =
     (case tensor scenario_A_bbox of
        Inl e \<Rightarrow> (Inl e :: error + ('t, 'b) obj)
      | Inr t \<Rightarrow> Inl ValueError) \<and>
   collate_and_decode_sample tensor scenario_A_vocabulary decoder
     ((JStr ''000001.jpg'', [(''instances'', JList [scenario_A_annotation])]),
      (''000001.jpg'', buffer)) = (Inl TypeError :: error + (string \<times> ('t, 'b) obj) list)"
  by (simp add: decode_instances_ann_def scenario_A_annotation_def scenario_A_vocabulary_def
        subscript_def bind_e_def collate_and_decode_sample_def ANN_DECODER_MAP_def
        ANN_TYPES_def ANN_DECODERS_def split: sum.splits)

lemma decode_instances_ann_missing:
  assumes "k \<in> {''area'', ''iscrowd'', ''bbox'', ''category_id'', ''id''}"
    and "map_of d k = None"
  shows "\<exists>e. decode_instances_ann tensor categories (JDict d) = (Inl e :: error + ('t, 'b) obj)"
proof -
  have *: "subscript (JDict d) k = Inl (KeyError k)"
    using assms(2) by (rule subscript_missing)
  show ?thesis
    using assms(1) *
    unfolding decode_instances_ann_def Let_def
    by (auto simp: bind_e_def split: sum.splits)
qed

text \<open>
  Claim C4. Decoding a record that lacks a required field raises and returns no
  result: \<^verbatim>\<open>_decode_instances_ann\<close> raises when one of \<^verbatim>\<open>area\<close>, \<^verbatim>\<open>iscrowd\<close>, \<^verbatim>\<open>bbox\<close>,
  \<^verbatim>\<open>category_id\<close>, \<^verbatim>\<open>id\<close> is absent, whatever \<^verbatim>\<open>torch.tensor\<close> and the vocabulary are, and
  \<^verbatim>\<open>_decode_captions_ann\<close> raises \<^verbatim>\<open>KeyError\<close> when \<^verbatim>\<open>image_id\<close> is absent.
\<close>

theorem decode_missing_field_raises:
  "(k \<in> {''area'', ''iscrowd'', ''bbox'', ''category_id'', ''id''} \<and> map_of d k = None \<longrightarrow>
      (\<exists>e. decode_instances_ann tensor categories (JDict d) = (Inl e :: error + ('t, 'b) obj))) \<and>
   (map_of d ''image_id'' = None \<longrightarrow> decode_captions_ann (JDict d) = Inl (KeyError ''image_id''))"
  using decode_instances_ann_missing [of k d tensor categories]
  by (auto simp: decode_captions_ann_def)

text \<open>The record of the witness has every field of an instance but \<^verbatim>\<open>id\<close>, and no
  \<^verbatim>\<open>image_id\<close>.\<close>

theorem decode_missing_field_raises_witness:
  "''id'' \<in> {''area'', ''iscrowd'', ''bbox'', ''category_id'', ''id''} \<and>
   map_of [(''area'', JInt 100), (''iscrowd'', JInt 0), (''bbox'', scenario_A_bbox),
           (''category_id'', JStr ''cat'')] ''id'' = None \<and>
   (\<exists>e. decode_instances_ann (\<lambda>v. Inr v) scenario_A_vocabulary
          (JDict [(''area'', JInt 100), (''iscrowd'', JInt 0), (''bbox'', scenario_A_bbox),
                  (''category_id'', JStr ''cat'')]) = (Inl e :: error + (json, unit) obj)) \<and>
   map_of [(''area'', JInt 100), (''iscrowd'', JInt 0), (''bbox'', scenario_A_bbox),
           (''category_id'', JStr ''cat'')] ''image_id'' = None \<and>
   decode_captions_ann
     (JDict [(''area'', JInt 100), (''iscrowd'', JInt 0), (''bbox'', scenario_A_bbox),
             (''category_id'', JStr ''cat'')]) = Inl (KeyError ''image_id'')"
  using decode_missing_field_raises
    [of "''id''" "[(''area'', JInt 100), (''iscrowd'', JInt 0), (''bbox'', scenario_A_bbox),
           (''category_id'', JStr ''cat'')]" "\<lambda>v. Inr v" scenario_A_vocabulary]
  by simp

text \<open>
  Claim C5. For every annotation record (a mapping that carries \<^verbatim>\<open>image_id\<close>, as every
  parsed annotation record does), \<^verbatim>\<open>_decode_captions_ann\<close> returns the record without
  its \<^verbatim>\<open>image_id\<close> item: \<^verbatim>\<open>image_id\<close> is no key of the result, and every other key is
  bound as in the input.
\<close>

theorem decode_captions_ann_removes_image_id:
  "map_of d ''image_id'' \<noteq> None \<Longrightarrow>
   decode_captions_ann (JDict d) = Inr (JDict (AList.delete ''image_id'' d)) \<and>
   map_of (AList.delete ''image_id'' d) ''image_id'' = None \<and>
   (\<forall>k. k \<noteq> ''image_id'' \<longrightarrow> map_of (AList.delete ''image_id'' d) k = map_of d k)"
  by (auto simp: decode_captions_ann_def delete_conv)

theorem decode_captions_ann_removes_image_id_witness:
  "map_of [(''id'', JInt 20), (''image_id'', JInt 1), (''caption'', JStr ''a cat'')] ''image_id''
     \<noteq> None \<and>
   decode_captions_ann caption_record =
     Inr (JDict [(''id'', JInt 20), (''caption'', JStr ''a cat'')])"
  using decode_captions_ann_removes_image_id
    [of "[(''id'', JInt 20), (''image_id'', JInt 1), (''caption'', JStr ''a cat'')]"]
  by (simp add: caption_record_def)

text \<open>
  Claim C10. \<^verbatim>\<open>_decode_captions_ann\<close> does not mutate its argument: after the call,
  every object that existed before the call, the argument among them, has the items it
  had. The call works on a fresh copy: what it returns is a reference different from the
  argument, to an object that holds the result of the decoder, and when it raises, the
  decoder raises the same exception.
\<close>

theorem decode_captions_ann_keeps_argument:
  "a < length h \<Longrightarrow>
   (\<forall>b < length h. fst (decode_captions_ann_store h a) ! b = h ! b) \<and>
   (case snd (decode_captions_ann_store h a) of
      Inl e \<Rightarrow> decode_captions_ann (JDict (h ! a)) = Inl e
    | Inr r \<Rightarrow> r \<noteq> a \<and>
        decode_captions_ann (JDict (h ! a)) =
          Inr (JDict (fst (decode_captions_ann_store h a) ! r)))"
  by (auto simp: decode_captions_ann_store_def decode_captions_ann_def Let_def nth_append
           split: option.splits)

theorem decode_captions_ann_keeps_argument_witness:
  "(0::nat) < length [[(''id'', JInt 20), (''image_id'', JInt 1)]] \<and>
   fst (decode_captions_ann_store [[(''id'', JInt 20), (''image_id'', JInt 1)]] 0) ! 0
     = [(''id'', JInt 20), (''image_id'', JInt 1)] \<and>
   snd (decode_captions_ann_store [[(''id'', JInt 20), (''image_id'', JInt 1)]] 0) = Inr 1 \<and>
   fst (decode_captions_ann_store [[(''id'', JInt 20), (''image_id'', JInt 1)]] 0) ! 1
     = [(''id'', JInt 20)]"
  using decode_captions_ann_keeps_argument [of 0 "[[(''id'', JInt 20), (''image_id'', JInt 1)]]"]
  by (simp add: decode_captions_ann_store_def)

section \<open>The classifiers\<close>

text \<open>
  Claim C8. \<^verbatim>\<open>_classify_meta\<close> returns channel 0 for the key \<^verbatim>\<open>images\<close>, channel 1 for
  the key \<^verbatim>\<open>annotations\<close> and no channel for every other key, whatever the value is. It
  is a function of its argument alone and has no failing branch.
\<close>

theorem classify_meta_channels:
  "classify_meta (''images'', v) = Some 0 \<and>
   classify_meta (''annotations'', v) = Some 1 \<and>
   (key \<noteq> ''images'' \<and> key \<noteq> ''annotations'' \<longrightarrow> classify_meta (key, v) = None)"
  by (simp add: classify_meta_def)

theorem classify_meta_channels_witness:
  "classify_meta (''images'', JList []) = Some 0 \<and>
   classify_meta (''annotations'', JList []) = Some 1 \<and>
   ''licenses'' \<noteq> ''images'' \<and> ''licenses'' \<noteq> ''annotations'' \<and>
   classify_meta (''licenses'', JList []) = None"
  using classify_meta_channels [of "JList []" "''licenses''"] by simp

text \<open>
  The body of \<^verbatim>\<open>_classifiy_meta_files\<close>, when its keyword parameters are bound under
  their own names, does what the specification says of the filename classifier: no
  channel for a name that does not match or whose split or year differ, and otherwise the
  channel of the captured annotation type if the dictionary has one.
\<close>

lemma classifiy_meta_files_bound:
  "call_classifiy_meta_files
     [(''split'', KStr s), (''year'', KStr y), (''ann_type_idcs'', KIdcs idcs)] data =
   Inr (case META_FILE_PATTERN_match (path_name (fst data)) of
          None \<Rightarrow> None
        | Some (t, s', y') \<Rightarrow> if s' = s \<and> y' = y then map_of idcs t else None)"
  by (auto simp: call_classifiy_meta_files_def classifiy_meta_files_def split: option.splits)

lemma META_FILE_PATTERN_match_examples:
  "META_FILE_PATTERN_match (path_name ''annotations/captions_train2017.json'')
     = Some (''captions'', ''train'', ''2017'')"
  "META_FILE_PATTERN_match (path_name ''annotations/person_keypoints_val2017.json'') = None"
  by (simp_all add: META_FILE_PATTERN_match_def ANN_TYPES_def match_ann_type_def path_name_def
        is_alpha_def is_digit_def)

text \<open>
  Claim C3 (the filename classifier as configured and applied in \<^verbatim>\<open>_make_anns_dp\<close>).
  The claim says that the classifier returns a channel or no channel and never an error.
  On the code, \<^verbatim>\<open>_make_anns_dp\<close> passes the dictionary of channels under the keyword
  \<^verbatim>\<open>type_idcs\<close>, while the parameter is named \<^verbatim>\<open>ann_type_idcs\<close>: every call of the
  classifier raises \<^verbatim>\<open>TypeError\<close>, for every configuration and every archive entry.
\<close>

theorem make_anns_dp_classifier_raises:
  "make_anns_dp_classifier cfg data = Inl TypeError"
  by (simp add: make_anns_dp_classifier_def call_classifiy_meta_files_def)

section \<open>Collating the annotations\<close>

text \<open>
  Claim C9. On a non-empty list of (annotations, image record) pairs,
  \<^verbatim>\<open>_precollate_anns\<close> does not fail: the unzip yields the two tuples, the second one is
  not empty, and the result is the pair of the \<^verbatim>\<open>file_name\<close> of the first image record
  and the mapping of the types to the annotations. On the empty list it raises
  \<^verbatim>\<open>ValueError\<close>.
\<close>

theorem precollate_anns_nonempty:
  "(data \<noteq> [] \<longrightarrow> (\<exists>ann_data images. unzip2 data = Inr (ann_data, images) \<and> images \<noteq> [])) \<and>
   (data \<noteq> [] \<and> list_all (\<lambda>item. is_ImageRecord (snd item)) data \<longrightarrow>
      (\<exists>file_name. subscript (snd (hd data)) ''file_name'' = Inr file_name \<and>
         precollate_anns types data = Inr (file_name, py_dict (zip types (map fst data))))) \<and>
   precollate_anns types [] = Inl ValueError"
  by (cases data)
     (auto simp: precollate_anns_def unzip2_def bind_e_def is_ImageRecord_def subscript_def
           split: json.splits option.splits)

theorem precollate_anns_nonempty_witness:
  "[(JList [scenario_A_annotation], scenario_A_image)] \<noteq> [] \<and>
   list_all (\<lambda>item. is_ImageRecord (snd item))
     [(JList [scenario_A_annotation], scenario_A_image)] \<and>
   precollate_anns [''instances''] [(JList [scenario_A_annotation], scenario_A_image)]
     = Inr (JStr ''000001.jpg'', [(''instances'', JList [scenario_A_annotation])])"
  using precollate_anns_nonempty
    [of "[(JList [scenario_A_annotation], scenario_A_image)]" "[''instances'']"]
  by (simp add: is_ImageRecord_def scenario_A_image_def subscript_def py_dict_def)

text \<open>
  Claim C2 (multi-kind union). Both annotation types are selected, and the image of
  scenario A has a caption and no instance: the stream of the type \<^verbatim>\<open>instances\<close> is
  empty and the stream of the type \<^verbatim>\<open>captions\<close> holds one pair. The claim says that the
  collated mapping has the single key \<^verbatim>\<open>captions\<close>. On the code,
  \<^verbatim>\<open>dict(zip(types, ann_data))\<close> pairs the selected types with the annotations by
  position, so the captions are stored under the key \<^verbatim>\<open>instances\<close> and the key
  \<^verbatim>\<open>captions\<close> is absent.
\<close>

theorem collate_anns_dps_mislabels:
  "collate_anns_dps both_types [[], [(JList [caption_record], scenario_A_image)]] =
     Inr [Inr (JStr ''000001.jpg'', [(''instances'', JList [caption_record])])]"
  by (simp add: collate_anns_dps_def Concater_def both_types_def ann_types_def ANN_TYPES_def
        config_getitem_def scenario_A_image_def subscript_def bind_e_def dict_key_def
        precollate_anns_def unzip2_def py_dict_def)

section \<open>Decoding a collated sample\<close>

lemma decode_anns_ok:
  assumes "distinct (map fst anns)"
    and "list_all (\<lambda>(type, ann). case ANN_DECODER_MAP tensor categories type of
                      None \<Rightarrow> False
                    | Some (dec :: json \<Rightarrow> error + ('t, 'b) obj) \<Rightarrow> \<not> isl (dec ann)) anns"
  shows "\<exists>r. decode_anns tensor categories (acc :: (string \<times> ('t, 'b) obj) list) anns = Inr r \<and>
           fst ` set r = fst ` set acc \<union> fst ` set anns \<and>
           (distinct (map fst acc) \<longrightarrow> distinct (map fst r)) \<and>
           (\<forall>k. map_of r k =
              (case map_of anns k of
                 None \<Rightarrow> map_of acc k
               | Some ann \<Rightarrow> Some (projr (the (ANN_DECODER_MAP tensor categories k) ann))))"
  using assms
proof (induction anns arbitrary: acc)
  case Nil
  then show ?case by simp
next
  case (Cons p rest)
  obtain t a where p: "p = (t, a)" by (cases p)
  from Cons.prems(2) p obtain dec :: "json \<Rightarrow> error + ('t, 'b) obj" where
    dec: "ANN_DECODER_MAP tensor categories t = Some dec" and nl: "\<not> isl (dec a)"
    by (auto split: option.splits)
  from nl obtain v where v: "dec a = Inr v"
    by (cases "dec a") auto
  have d: "distinct (map fst rest)" and notin: "t \<notin> fst ` set rest"
    using Cons.prems(1) p by auto
  have ok: "list_all (\<lambda>(type, ann). case ANN_DECODER_MAP tensor categories type of
                      None \<Rightarrow> False
                    | Some (dec :: json \<Rightarrow> error + ('t, 'b) obj) \<Rightarrow> \<not> isl (dec ann)) rest"
    using Cons.prems(2) by simp
  from Cons.IH [OF d ok, of "AList.update t v acc"] obtain r where
    r: "decode_anns tensor categories (AList.update t v acc) rest = Inr r"
    and keys: "fst ` set r = fst ` set (AList.update t v acc) \<union> fst ` set rest"
    and dist: "distinct (map fst (AList.update t v acc)) \<longrightarrow> distinct (map fst r)"
    and vals: "\<forall>k. map_of r k =
              (case map_of rest k of
                 None \<Rightarrow> map_of (AList.update t v acc) k
               | Some ann \<Rightarrow> Some (projr (the (ANN_DECODER_MAP tensor categories k) ann)))"
    by blast
  have none: "map_of rest t = None" using notin by (simp add: map_of_eq_None_iff)
  have 1: "decode_anns tensor categories acc (p # rest) = Inr r"
    using p dec v r by (simp add: bind_e_def)
  have 2: "fst ` set r = fst ` set acc \<union> fst ` set (p # rest)"
    using keys p by (auto simp: dom_update)
  have 3: "distinct (map fst acc) \<longrightarrow> distinct (map fst r)"
    using dist by (simp add: distinct_update)
  have 4: "\<forall>k. map_of r k =
              (case map_of (p # rest) k of
                 None \<Rightarrow> map_of acc k
               | Some ann \<Rightarrow> Some (projr (the (ANN_DECODER_MAP tensor categories k) ann)))"
    using vals none p dec v by (auto simp: update_conv' split: option.splits)
  from 1 2 3 4 show ?case by blast
qed



text \<open>
  When \<open>anns\<close> is a dictionary whose types have a decoder that accepts their payloads,
  and the injected image decoder accepts the buffer when it is called,
  \<^verbatim>\<open>_collate_and_decode_sample\<close> assembles the mapping that the specification
  describes: its keys are the types of \<open>anns\<close> together with \<^verbatim>\<open>path\<close> and \<^verbatim>\<open>image\<close>.
  A payload that the decoders accept is a single annotation record.
\<close>

lemma collate_and_decode_sample_assembles:
  fixes tensor :: "json \<Rightarrow> error + 't" and buffer :: 'b
  assumes dict: "distinct (map fst anns)"
    and anns_ok: "list_all (\<lambda>(type, ann). case ANN_DECODER_MAP tensor categories type of
                      None \<Rightarrow> False
                    | Some (dec :: json \<Rightarrow> error + ('t, 'b) obj) \<Rightarrow> \<not> isl (dec ann)) anns"
    and decoder_ok: "case decoder of None \<Rightarrow> True
                     | Some f \<Rightarrow> truthy f \<longrightarrow> \<not> isl (call f buffer)"
  shows "\<exists>sample.
           collate_and_decode_sample tensor categories decoder
             ((file_name, anns), (path, buffer)) = Inr sample \<and>
           distinct (map fst sample) \<and>
           fst ` set sample = fst ` set anns \<union> {''path'', ''image''} \<and>
           map_of sample ''path'' = Some (J (JStr path)) \<and>
           map_of sample ''image'' =
             Some (case decoder of
                     None \<Rightarrow> Buffer buffer
                   | Some f \<Rightarrow> if truthy f then Tensor (projr (call f buffer))
                               else Buffer buffer) \<and>
           (\<forall>type ann. map_of anns type = Some ann \<longrightarrow>
              (\<exists>dec v. ANN_DECODER_MAP tensor categories type = Some dec \<and>
                       dec ann = Inr v \<and> map_of sample type = Some v))"
proof -
  from decode_anns_ok [OF dict anns_ok, of "[]"] obtain r :: "(string \<times> ('t, 'b) obj) list" where
    r: "decode_anns tensor categories [] anns = Inr r"
    and keys0: "fst ` set r = fst ` set ([] :: (string \<times> ('t, 'b) obj) list) \<union> fst ` set anns"
    and dist0: "distinct (map fst ([] :: (string \<times> ('t, 'b) obj) list)) \<longrightarrow> distinct (map fst r)"
    and vals: "\<forall>k. map_of r k =
              (case map_of anns k of
                 None \<Rightarrow> map_of ([] :: (string \<times> ('t, 'b) obj) list) k
               | Some ann \<Rightarrow> Some (projr (the (ANN_DECODER_MAP tensor categories k) ann)))"
    by blast
  have keys: "fst ` set r = fst ` set anns" using keys0 by simp
  have dist: "distinct (map fst r)" using dist0 by simp
  define image :: "('t, 'b) obj" where
    "image = (case decoder of
                None \<Rightarrow> Buffer buffer
              | Some f \<Rightarrow> if truthy f then Tensor (projr (call f buffer)) else Buffer buffer)"
  have img: "(case decoder of
                None \<Rightarrow> Inr (Buffer buffer)
              | Some f \<Rightarrow>
                  if truthy f then bind_e (call f buffer) (\<lambda>t. Inr (Tensor t))
                  else Inr (Buffer buffer)) = Inr image"
    using decoder_ok unfolding image_def
    by (cases decoder) (auto simp: bind_e_def split: sum.splits)
  define sample where
    "sample = AList.update ''image'' image (AList.update ''path'' (J (JStr path)) r)"
  have 1: "collate_and_decode_sample tensor categories decoder
             ((file_name, anns), (path, buffer)) = Inr sample"
    by (simp add: collate_and_decode_sample_def r img bind_e_def sample_def)
  have 2: "distinct (map fst sample)"
    using dist by (simp add: sample_def distinct_update)
  have 3: "fst ` set sample = fst ` set anns \<union> {''path'', ''image''}"
    using keys by (auto simp: sample_def dom_update)
  have 4: "map_of sample ''path'' = Some (J (JStr path))"
    by (simp add: sample_def update_conv')
  have 5: "map_of sample ''image'' = Some image"
    by (simp add: sample_def update_conv')
  have 6: "\<exists>dec v. ANN_DECODER_MAP tensor categories type = Some dec \<and>
                       dec ann = Inr v \<and> map_of sample type = Some v"
    if m: "map_of anns type = Some ann" for type ann
  proof -
    from m have mem: "(type, ann) \<in> set anns" by (rule map_of_SomeD)
    with anns_ok
    have "case ANN_DECODER_MAP tensor categories type of
            None \<Rightarrow> False
          | Some (dec :: json \<Rightarrow> error + ('t, 'b) obj) \<Rightarrow> \<not> isl (dec ann)"
      by (auto simp: list_all_iff)
    then obtain dec :: "json \<Rightarrow> error + ('t, 'b) obj" where
      dec: "ANN_DECODER_MAP tensor categories type = Some dec" and nl: "\<not> isl (dec ann)"
      by (auto split: option.splits)
    from nl obtain v where v: "dec ann = Inr v" by (cases "dec ann") auto
    from ANN_DECODER_MAP_keys [OF dec] have ne: "type \<noteq> ''path''" "type \<noteq> ''image''" by auto
    have "map_of r type = Some v" using vals m dec v by simp
    with ne have "map_of sample type = Some v" by (simp add: sample_def update_conv')
    with dec v show ?thesis by blast
  qed
  from 1 2 3 4 5 6 show ?thesis unfolding image_def by blast
qed

text \<open>Both decoders reject a payload that is a list of records.\<close>

lemma ANN_DECODER_MAP_rejects_list:
  "ANN_DECODER_MAP tensor categories type = Some dec \<Longrightarrow> dec (JList xs) = Inl TypeError"
  by (auto simp: ANN_DECODER_MAP_def ANN_TYPES_def ANN_DECODERS_def decode_instances_ann_def
        decode_captions_ann_def subscript_def bind_e_def split: if_splits)

text \<open>
  Claim C6. The claim says that \<^verbatim>\<open>_collate_and_decode_sample\<close> returns a mapping with
  the keys \<^verbatim>\<open>path\<close> and \<^verbatim>\<open>image\<close> and one key per annotation type of the collated record.
  On the code, the payload of a type in a collated record is the list of the image's
  annotation records, as the grouping stage emits it and \<^verbatim>\<open>_precollate_anns\<close> stores
  it, while the comprehension applies to it a decoder written for one record. For the
  image of scenario A with one caption, \<^verbatim>\<open>_precollate_anns\<close> delivers the payload
  \<^verbatim>\<open>[caption record]\<close> under \<^verbatim>\<open>captions\<close>, and \<^verbatim>\<open>_collate_and_decode_sample\<close> raises
  \<^verbatim>\<open>TypeError\<close> on it, whatever the image decoder is. The same holds for every collated
  record whose first item is of type \<^verbatim>\<open>instances\<close> or \<^verbatim>\<open>captions\<close> with a list as payload:
  no mapping is returned.
\<close>

theorem collate_and_decode_sample_raises:
  "precollate_anns [''captions''] [(JList [caption_record], scenario_A_image)] =
     Inr (JStr ''000001.jpg'', [(''captions'', JList [caption_record])]) \<and>
   collate_and_decode_sample tensor categories decoder
     ((JStr ''000001.jpg'', [(''captions'', JList [caption_record])]), (''000001.jpg'', buffer))
     = (Inl TypeError :: error + (string \<times> ('t, 'b) obj) list) \<and>
   collate_and_decode_sample tensor categories decoder
     ((file_name, (''instances'', JList xs) # rest), (path, buffer))
     = (Inl TypeError :: error + (string \<times> ('t, 'b) obj) list) \<and>
   collate_and_decode_sample tensor categories decoder
     ((file_name, (''captions'', JList xs) # rest), (path, buffer))
     = (Inl TypeError :: error + (string \<times> ('t, 'b) obj) list)"
  by (simp add: precollate_anns_def unzip2_def py_dict_def scenario_A_image_def
        collate_and_decode_sample_def ANN_DECODER_MAP_def ANN_TYPES_def ANN_DECODERS_def
        decode_instances_ann_def decode_captions_ann_def subscript_def bind_e_def)

section \<open>The vocabulary\<close>

lemma generate_categories_value:
  "meta_categories \<noteq> [] \<Longrightarrow>
   generate_categories meta_categories = Inr (map name (sort_key cat_id meta_categories))"
proof -
  assume ne: "meta_categories \<noteq> []"
  have "sort_key snd (map (\<lambda>info. (name info, cat_id info)) meta_categories)
      = map (\<lambda>info. (name info, cat_id info)) (sort_key cat_id meta_categories)"
    by (simp add: sort_key_map)
  moreover have "sort_key cat_id meta_categories \<noteq> []"
    using ne length_sort [of cat_id meta_categories] by (metis length_0_conv)
  ultimately show ?thesis
    by (simp add: generate_categories_def unzip2_def bind_e_def comp_def)
qed

text \<open>
  Claim C7, amended. For every non-empty list of category entries,
  \<^verbatim>\<open>_generate_categories\<close> returns the names of the entries sorted ascending by their
  numeric id: the ids of the result are in ascending order, the entries are those of the
  input, and entries with the same id keep the order of the document.
\<close>

theorem generate_categories_sorted:
  "meta_categories \<noteq> [] \<Longrightarrow>
   generate_categories meta_categories = Inr (map name (sort_key cat_id meta_categories)) \<and>
   sorted (map cat_id (sort_key cat_id meta_categories)) \<and>
   mset (sort_key cat_id meta_categories) = mset meta_categories \<and>
   (\<forall>i. filter (\<lambda>info. cat_id info = i) (sort_key cat_id meta_categories)
        = filter (\<lambda>info. cat_id info = i) meta_categories)"
  using generate_categories_value [of meta_categories]
  by (simp add: sort_key_stable)

theorem generate_categories_sorted_witness:
  "[\<lparr>name = ''dog'', cat_id = 18\<rparr>, \<lparr>name = ''person'', cat_id = 1\<rparr>,
    \<lparr>name = ''cat'', cat_id = 17\<rparr>] \<noteq> [] \<and>
   generate_categories [\<lparr>name = ''dog'', cat_id = 18\<rparr>, \<lparr>name = ''person'', cat_id = 1\<rparr>,
    \<lparr>name = ''cat'', cat_id = 17\<rparr>] = Inr [''person'', ''cat'', ''dog'']"
  using generate_categories_sorted
    [of "[\<lparr>name = ''dog'', cat_id = 18\<rparr>, \<lparr>name = ''person'', cat_id = 1\<rparr>,
          \<lparr>name = ''cat'', cat_id = 17\<rparr>]"]
  by simp

text \<open>
  Claim C7 as stated speaks of every list of category entries. On the empty list the
  names sorted by id are the empty vocabulary, but \<^verbatim>\<open>_generate_categories\<close> returns
  nothing: unpacking \<^verbatim>\<open>zip(*sorted([]))\<close> into two targets raises \<^verbatim>\<open>ValueError\<close>.
\<close>

theorem generate_categories_empty_raises:
  "generate_categories [] = Inl ValueError \<and>
   generate_categories [] \<noteq> Inr (map name (sort_key cat_id []))"
  by (simp add: generate_categories_def unzip2_def bind_e_def)

end
